theory Spec2Isabelle
  imports Complex_Main
begin

section \<open>The client-side adapter and metrics store of the dashboard (services/api)\<close>

text \<open>
  The embedding follows the module \<open>services/api\<close> (the last part of the source, from
  \<open>import axios\<close> on) and the handler \<open>handleSendMessage\<close> of \<open>ChatbotSection.tsx\<close>.

  Conventions of the model:
  \<^item> a JavaScript \<open>number\<close> is a \<open>real\<close>: the finite numbers, with exact arithmetic.
    \<open>NaN\<close> and the infinities are not represented. The one non-integer constant the
    code multiplies with, \<open>0.6\<close>, is applied to integers between 5 and 80 only, where
    the product is at distance at least 0.1 from every half-integer, so the rounding
    of the exact product and of the double product agree;
  \<^item> a JavaScript string is a \<open>string\<close> (characters up to code 255);
  \<^item> an optional property or a \<open>T | null\<close> is an \<open>option\<close>;
  \<^item> an exception is the left summand of \<open>error + 'a\<close>;
  \<^item> the browser storage, the event bus and the network are an explicit \<open>world\<close>
    that every effectful function takes and returns; \<open>await\<close> is sequencing.
\<close>

subsection \<open>Numbers\<close>

definition Math_round :: "real \<Rightarrow> real" where
  \<comment> \<open>\<open>Math.round\<close>: the nearest integer, a tie going up.\<close>
  "Math_round x = of_int \<lfloor>x + 1 / 2\<rfloor>"

definition Math_max :: "real \<Rightarrow> real \<Rightarrow> real" where
  "Math_max a b = (if a < b then b else a)"

definition Math_min :: "real \<Rightarrow> real \<Rightarrow> real" where
  "Math_min a b = (if b < a then b else a)"

subsection \<open>Strings\<close>

definition is_white_space :: "char \<Rightarrow> bool" where
  \<comment> \<open>The white space and line terminators of ECMAScript among the codes up to 255:
      TAB, LF, VT, FF, CR, SP, NBSP.\<close>
  "is_white_space c =
     (c \<in> set [CHR 0x09, CHR 0x0A, CHR 0x0B, CHR 0x0C, CHR 0x0D, CHR 0x20, CHR 0xA0])"

definition js_trim :: "string \<Rightarrow> string" where
  \<comment> \<open>\<open>String.prototype.trim\<close>\<close>
  "js_trim s = rev (dropWhile is_white_space (rev (dropWhile is_white_space s)))"

subsection \<open>Errors\<close>

datatype error =
    Error string        \<comment> \<open>\<open>new Error(message)\<close>\<close>
  | TypeError           \<comment> \<open>reading or writing a property of \<open>null\<close>\<close>
  | SyntaxError         \<comment> \<open>\<open>JSON.parse\<close> on a text that is not JSON\<close>
  | AxiosError string   \<comment> \<open>a request that the transport or the backend fails\<close>

subsection \<open>Wire types\<close>

datatype ChatMode = mode_general | mode_pdf
datatype ResponseMode = strict | solve
datatype ChatProvider = local | external
datatype llm_type = llm_local | llm_api

datatype File = File (file_name: string) (file_text: string)

record ChatPayload =
  question :: string
  mode :: ChatMode
  response_mode :: ResponseMode
  provider :: ChatProvider
  api_key :: "string option"

record ChatResponse =
  response :: string

record RagResponse =
  answer :: string

datatype arc_entry = Arc (arc_start: real) (arc_end: real) (mood: string)

record emotion_track =
  dominant_mood :: string
  emotional_arc :: "arc_entry list"

record VideoUploadResponse =
  language_detected :: string
  confidence :: "real option"
  transcript_preview :: string
  audio_emotion :: emotion_track
  script_emotion :: emotion_track

datatype arc_point = Point (point_confidence: "real option")

record ScriptAnalysisResponse =
  emotion_label :: string
  dominant_mood :: string
  confidence :: real
  emotional_arc :: "arc_point list"
  emotion_summary :: string

record PdfAnalysisResponse = ScriptAnalysisResponse +
  script_preview :: "string option"

record DashboardMetrics =
  totalConversations :: real
  videosProcessed :: real
  aiAccuracyScore :: real

record StoredMetrics =
  totalConversations :: real
  videosProcessed :: real
  analyzedCount :: real
  analyzedConfidenceSum :: real

record BackendChatRequest =
  message :: string
  llm_type :: llm_type
  api_key :: "string option"

record BackendRagRequest =
  question :: string
  mode :: ResponseMode
  llm_type :: llm_type
  api_key :: "string option"

subsection \<open>The world: durable storage, event bus, network\<close>

text \<open>
  The text stored under \<open>METRICS_KEY\<close> is represented by what \<open>JSON.parse\<close> makes of
  it: the empty string, a text that is not JSON, or a JSON text, given by the value it
  denotes. Of the JSON values the model has \<open>null\<close> and the objects with the four
  numeric fields of \<open>StoredMetrics\<close>; \<open>JSON.stringify\<close> of a value is the text denoting it.
\<close>

datatype json = JNull | JMetrics StoredMetrics

datatype item = EmptyString | NonJson | JsonText json

datatype call =
    Chat BackendChatRequest      \<comment> \<open>POST /chat\<close>
  | RagQuery BackendRagRequest   \<comment> \<open>POST /rag-query\<close>
  | UploadPdf File               \<comment> \<open>POST /upload-pdf\<close>
  | ScriptAnalyze string         \<comment> \<open>POST /script/analyze\<close>
  | VideoUpload File             \<comment> \<open>POST /video/upload\<close>
  | VideoYoutube string          \<comment> \<open>POST /video/youtube?url=...\<close>
  | ScriptUploadPdf File         \<comment> \<open>POST /script/upload-pdf\<close>

record world =
  metrics_item :: "item option"   \<comment> \<open>\<open>localStorage\<close> at \<open>METRICS_KEY\<close>; \<open>None\<close> when absent\<close>
  events :: nat                   \<comment> \<open>how many \<open>METRICS_EVENT\<close>s were dispatched\<close>
  calls :: "call list"            \<comment> \<open>the requests issued so far, oldest first\<close>

text \<open>
  The backend is a parameter: one function per endpoint, from the request body and the
  requests issued before it to the response or the failure.
\<close>

record backend =
  post_chat :: "BackendChatRequest \<Rightarrow> call list \<Rightarrow> error + ChatResponse"
  post_rag_query :: "BackendRagRequest \<Rightarrow> call list \<Rightarrow> error + RagResponse"
  post_upload_pdf :: "File \<Rightarrow> call list \<Rightarrow> error + unit"
  post_script_analyze :: "string \<Rightarrow> call list \<Rightarrow> error + ScriptAnalysisResponse"
  post_video_upload :: "File \<Rightarrow> call list \<Rightarrow> error + VideoUploadResponse"
  post_video_youtube :: "string \<Rightarrow> call list \<Rightarrow> error + VideoUploadResponse"
  post_script_upload_pdf :: "File \<Rightarrow> call list \<Rightarrow> error + PdfAnalysisResponse"

type_synonym 'a io = "world \<Rightarrow> (error + 'a) \<times> world"

definition return :: "'a \<Rightarrow> 'a io" where
  "return x w = (Inr x, w)"

definition throw :: "error \<Rightarrow> 'a io" where
  "throw e w = (Inl e, w)"

definition bind_io :: "'a io \<Rightarrow> ('a \<Rightarrow> 'b io) \<Rightarrow> 'b io" where
  \<comment> \<open>run the first computation; an exception ends the sequence\<close>
  "bind_io m f w = (case m w of (Inl e, w') \<Rightarrow> (Inl e, w') | (Inr x, w') \<Rightarrow> f x w')"

definition apiClient_post :: "(call list \<Rightarrow> error + 'a) \<Rightarrow> call \<Rightarrow> 'a io" where
  \<comment> \<open>the request is issued (logged) whether or not it succeeds\<close>
  "apiClient_post respond c w = (respond (calls w), w\<lparr>calls := calls w @ [c]\<rparr>)"

definition localStorage_getItem :: "world \<Rightarrow> item option" where
  "localStorage_getItem w = metrics_item w"

definition JSON_parse :: "item \<Rightarrow> error + json" where
  "JSON_parse raw = (case raw of JsonText v \<Rightarrow> Inr v | _ \<Rightarrow> Inl SyntaxError)"

definition JSON_stringify :: "json \<Rightarrow> item" where
  "JSON_stringify v = JsonText v"

subsection \<open>Metrics store\<close>

definition zero_metrics :: StoredMetrics where
  "zero_metrics = \<lparr>totalConversations = 0, videosProcessed = 0,
                    analyzedCount = 0, analyzedConfidenceSum = 0\<rparr>"

definition readMetrics :: "world \<Rightarrow> json" where
  "readMetrics w =
     (case localStorage_getItem w of
        None \<Rightarrow> JMetrics zero_metrics
      | Some raw \<Rightarrow>
          if raw = EmptyString then JMetrics zero_metrics
          else (case JSON_parse raw of
                  Inl e \<Rightarrow> JMetrics zero_metrics
                | Inr v \<Rightarrow> v))"

definition writeMetrics :: "StoredMetrics \<Rightarrow> world \<Rightarrow> world" where
  "writeMetrics next w =
     w\<lparr>metrics_item := Some (JSON_stringify (JMetrics next)), events := events w + 1\<rparr>"

definition fields_of :: "json \<Rightarrow> error + StoredMetrics" where
  \<comment> \<open>what a property access on the parsed value finds: on \<open>null\<close> it throws\<close>
  "fields_of v = (case v of JNull \<Rightarrow> Inl TypeError | JMetrics m \<Rightarrow> Inr m)"

definition incrementConversation :: "unit io" where
  "incrementConversation w =
     (case fields_of (readMetrics w) of
        Inl e \<Rightarrow> (Inl e, w)
      | Inr metrics \<Rightarrow>
          (Inr (), writeMetrics
             (metrics\<lparr>StoredMetrics.totalConversations :=
                        StoredMetrics.totalConversations metrics + 1\<rparr>) w))"

definition incrementVideos :: "unit io" where
  "incrementVideos w =
     (case fields_of (readMetrics w) of
        Inl e \<Rightarrow> (Inl e, w)
      | Inr metrics \<Rightarrow>
          (Inr (), writeMetrics
             (metrics\<lparr>StoredMetrics.videosProcessed :=
                        StoredMetrics.videosProcessed metrics + 1\<rparr>) w))"

definition addAnalysisConfidence :: "real \<Rightarrow> unit io" where
  "addAnalysisConfidence confidencePercent w =
     (case fields_of (readMetrics w) of
        Inl e \<Rightarrow> (Inl e, w)
      | Inr metrics \<Rightarrow>
          (Inr (), writeMetrics
             (metrics\<lparr>analyzedCount := analyzedCount metrics + 1,
                      analyzedConfidenceSum := analyzedConfidenceSum metrics + confidencePercent\<rparr>) w))"

definition getDashboardMetrics :: "world \<Rightarrow> error + DashboardMetrics" where
  "getDashboardMetrics w =
     (case fields_of (readMetrics w) of
        Inl e \<Rightarrow> Inl e
      | Inr metrics \<Rightarrow>
          let aiAccuracyScore =
                (if analyzedCount metrics \<noteq> 0
                 then analyzedConfidenceSum metrics / analyzedCount metrics
                 else 0)
          in Inr \<lparr>DashboardMetrics.totalConversations = StoredMetrics.totalConversations metrics,
                  DashboardMetrics.videosProcessed = StoredMetrics.videosProcessed metrics,
                  aiAccuracyScore = aiAccuracyScore\<rparr>)"

subsection \<open>Wire adapter: pure part\<close>

text \<open>
  \<open>moodToValue\<close> is an object literal, so \<open>moodToValue[key]\<close> finds the literal's own
  properties first and then the properties that every plain object inherits from
  \<open>Object.prototype\<close>; it is \<open>undefined\<close> only when neither has the key.
\<close>

datatype jsval =
    Number real
  | Inherited string   \<comment> \<open>the value of the property of that name of \<open>Object.prototype\<close>\<close>

definition Object_prototype_keys :: "string list" where
  "Object_prototype_keys =
     [''constructor'', ''hasOwnProperty'', ''isPrototypeOf'', ''propertyIsEnumerable'',
      ''toLocaleString'', ''toString'', ''valueOf'', ''__proto__'',
      ''__defineGetter__'', ''__defineSetter__'', ''__lookupGetter__'', ''__lookupSetter__'']"

definition get_property :: "(string \<times> real) list \<Rightarrow> string \<Rightarrow> jsval option" where
  \<comment> \<open>\<open>obj[key]\<close> for an object literal \<open>obj\<close> with numeric properties; \<open>None\<close> is \<open>undefined\<close>\<close>
  "get_property obj key =
     (case map_of obj key of
        Some v \<Rightarrow> Some (Number v)
      | None \<Rightarrow> if key \<in> set Object_prototype_keys then Some (Inherited key) else None)"

definition moodToValue :: "(string \<times> real) list" where
  "moodToValue =
     [(''intense'', 95), (''energetic'', 85), (''dramatic'', 80),
      (''dark'', 70), (''calm'', 40), (''neutral'', 50)]"

definition mapAudioArcToIntensitySeries :: "arc_entry list \<Rightarrow> jsval list" where
  "mapAudioArcToIntensitySeries arc =
     map (\<lambda>entry. case get_property moodToValue (mood entry) of
                     None \<Rightarrow> Number 50
                   | Some v \<Rightarrow> v) arc"

definition normalizeProvider :: "ChatProvider \<Rightarrow> llm_type" where
  "normalizeProvider p = (if p = external then llm_api else llm_local)"

definition inferIntensity :: "real \<Rightarrow> string" where
  "inferIntensity confidencePercent =
     (if confidencePercent \<ge> 80 then ''High''
      else if confidencePercent \<ge> 60 then ''Medium''
      else ''Low'')"

record emotion =
  e_name :: string
  e_value :: real
  e_color :: string

definition buildEmotionBreakdown :: "string \<Rightarrow> real \<Rightarrow> emotion list" where
  "buildEmotionBreakdown dominantMood confidencePercent =
     (let dominant = Math_max 20 (Math_min 95 (Math_round confidencePercent));
          secondary = Math_max 5 (Math_round ((100 - dominant) * (6 / 10)));
          tertiary = Math_max 5 (100 - dominant - secondary)
      in [\<lparr>e_name = dominantMood, e_value = dominant, e_color = ''#3b82f6''\<rparr>,
          \<lparr>e_name = ''Secondary'', e_value = secondary, e_color = ''#8b5cf6''\<rparr>,
          \<lparr>e_name = ''Residual'', e_value = tertiary, e_color = ''#22c55e''\<rparr>])"

subsection \<open>Wire adapter: requests\<close>

definition analyzeScript :: "backend \<Rightarrow> string \<Rightarrow> ScriptAnalysisResponse io" where
  "analyzeScript be text = apiClient_post (post_script_analyze be text) (ScriptAnalyze text)"

definition uploadVideo :: "backend \<Rightarrow> File \<Rightarrow> VideoUploadResponse io" where
  "uploadVideo be file = apiClient_post (post_video_upload be file) (VideoUpload file)"

definition analyzeYouTubeVideo :: "backend \<Rightarrow> string \<Rightarrow> VideoUploadResponse io" where
  "analyzeYouTubeVideo be url = apiClient_post (post_video_youtube be url) (VideoYoutube url)"

definition uploadPDF :: "backend \<Rightarrow> File \<Rightarrow> PdfAnalysisResponse io" where
  "uploadPDF be file = apiClient_post (post_script_upload_pdf be file) (ScriptUploadPdf file)"

definition uploadChatPDF :: "backend \<Rightarrow> File \<Rightarrow> unit io" where
  "uploadChatPDF be file = apiClient_post (post_upload_pdf be file) (UploadPdf file)"

definition sendChat :: "backend \<Rightarrow> ChatPayload \<Rightarrow> ChatResponse io" where
  "sendChat be payload =
     (if ChatPayload.mode payload = mode_pdf then
        (let ragRequest =
               \<lparr>BackendRagRequest.question = ChatPayload.question payload,
                BackendRagRequest.mode = response_mode payload,
                BackendRagRequest.llm_type = normalizeProvider (provider payload),
                BackendRagRequest.api_key = ChatPayload.api_key payload\<rparr>
         in bind_io (apiClient_post (post_rag_query be ragRequest) (RagQuery ragRequest))
              (\<lambda>data. bind_io incrementConversation
                 (\<lambda>_. return \<lparr>response = answer data\<rparr>)))
      else
        (let chatRequest =
               \<lparr>message = ChatPayload.question payload,
                BackendChatRequest.llm_type = normalizeProvider (provider payload),
                BackendChatRequest.api_key = ChatPayload.api_key payload\<rparr>
         in bind_io (apiClient_post (post_chat be chatRequest) (Chat chatRequest))
              (\<lambda>data. bind_io incrementConversation
                 (\<lambda>_. return data))))"

record sendMessage_input =
  sm_message :: string
  sm_mode :: ChatMode
  sm_responseMode :: ResponseMode
  sm_provider :: ChatProvider
  sm_apiKey :: "string option"
  sm_pdfContext :: "File option"

definition chatbotApi_sendMessage :: "backend \<Rightarrow> sendMessage_input \<Rightarrow> ChatResponse io" where
  "chatbotApi_sendMessage be input =
     bind_io
       (if sm_mode input = mode_pdf
        then (case sm_pdfContext input of
                Some file \<Rightarrow> uploadChatPDF be file
              | None \<Rightarrow> return ())
        else return ())
       (\<lambda>_. sendChat be
              \<lparr>ChatPayload.question = sm_message input,
               ChatPayload.mode = sm_mode input,
               response_mode = sm_responseMode input,
               provider = sm_provider input,
               ChatPayload.api_key = sm_apiKey input\<rparr>)"

datatype analyze_type = type_video | type_script | type_pdf

record AnalysisResult =
  dominantMood :: string
  intensity :: string
  result_confidence :: real
  emotionalArc :: "jsval list"
  emotions :: "emotion list"

definition emotionApi_analyze :: "backend \<Rightarrow> File \<Rightarrow> analyze_type \<Rightarrow> AnalysisResult io" where
  "emotionApi_analyze be file type =
     (if type = type_video then
        bind_io (uploadVideo be file) (\<lambda>data.
          let confidence =
                Math_round ((case VideoUploadResponse.confidence data of
                               None \<Rightarrow> 0 | Some c \<Rightarrow> c) * 100)
          in bind_io incrementVideos (\<lambda>_.
             bind_io (addAnalysisConfidence confidence) (\<lambda>_.
             return
               \<lparr>dominantMood = emotion_track.dominant_mood (audio_emotion data),
                intensity = inferIntensity confidence,
                result_confidence = confidence,
                emotionalArc =
                  mapAudioArcToIntensitySeries (emotion_track.emotional_arc (audio_emotion data)),
                emotions =
                  buildEmotionBreakdown (emotion_track.dominant_mood (audio_emotion data))
                    confidence\<rparr>)))
      else if type = type_pdf then
        bind_io (uploadPDF be file) (\<lambda>data.
          let confidence = Math_round (ScriptAnalysisResponse.confidence data * 100)
          in bind_io (addAnalysisConfidence confidence) (\<lambda>_.
             return
               \<lparr>dominantMood = ScriptAnalysisResponse.dominant_mood data,
                intensity = inferIntensity confidence,
                result_confidence = confidence,
                emotionalArc =
                  map (\<lambda>point. Number (Math_round
                         ((case point_confidence point of None \<Rightarrow> 0 | Some c \<Rightarrow> c) * 100)))
                    (ScriptAnalysisResponse.emotional_arc data),
                emotions =
                  buildEmotionBreakdown (ScriptAnalysisResponse.dominant_mood data) confidence\<rparr>))
      else
        (let scriptText = file_text file
         in if js_trim scriptText = [] then throw (Error ''Script file is empty.'')
            else
              bind_io (analyzeScript be scriptText) (\<lambda>data.
                let confidence = Math_round (ScriptAnalysisResponse.confidence data * 100)
                in bind_io (addAnalysisConfidence confidence) (\<lambda>_.
                   return
                     \<lparr>dominantMood = ScriptAnalysisResponse.dominant_mood data,
                      intensity = inferIntensity confidence,
                      result_confidence = confidence,
                      emotionalArc =
                        map (\<lambda>point. Number (Math_round
                               ((case point_confidence point of None \<Rightarrow> 0 | Some c \<Rightarrow> c) * 100)))
                          (ScriptAnalysisResponse.emotional_arc data),
                      emotions =
                        buildEmotionBreakdown (ScriptAnalysisResponse.dominant_mood data)
                          confidence\<rparr>))))"

definition emotionApi_analyzeYouTube :: "backend \<Rightarrow> string \<Rightarrow> AnalysisResult io" where
  "emotionApi_analyzeYouTube be url =
     bind_io (analyzeYouTubeVideo be url) (\<lambda>data.
       let confidence =
             Math_round ((case VideoUploadResponse.confidence data of
                            None \<Rightarrow> 0 | Some c \<Rightarrow> c) * 100)
       in bind_io incrementVideos (\<lambda>_.
          bind_io (addAnalysisConfidence confidence) (\<lambda>_.
          return
            \<lparr>dominantMood = emotion_track.dominant_mood (audio_emotion data),
             intensity = inferIntensity confidence,
             result_confidence = confidence,
             emotionalArc =
               mapAudioArcToIntensitySeries (emotion_track.emotional_arc (audio_emotion data)),
             emotions =
               buildEmotionBreakdown (emotion_track.dominant_mood (audio_emotion data))
                 confidence\<rparr>)))"

subsection \<open>The chat form's send handler (ChatbotSection)\<close>

record chat_form =
  chatMode :: ChatMode
  responseMode :: ResponseMode
  llmProvider :: ChatProvider
  apiKey :: string
  pdfFile :: "File option"
  input :: string

definition handleSendMessage :: "backend \<Rightarrow> chat_form \<Rightarrow> world \<Rightarrow> string option \<times> world" where
  \<comment> \<open>the content of the assistant message the handler appends, if any, and the world after\<close>
  "handleSendMessage be form w =
     (if js_trim (input form) = [] then (None, w)
      else
        (case chatbotApi_sendMessage be
                \<lparr>sm_message = input form,
                 sm_mode = chatMode form,
                 sm_responseMode = responseMode form,
                 sm_provider = llmProvider form,
                 sm_apiKey = (if llmProvider form = external then Some (apiKey form) else None),
                 sm_pdfContext = pdfFile form\<rparr> w of
           (Inr r, w') \<Rightarrow> (Some (response r), w')
         | (Inl e, w') \<Rightarrow> (Some ''Sorry, I encountered an error. Please try again.'', w')))"

subsection \<open>Sample backends and worlds\<close>

definition sample_track :: emotion_track where
  "sample_track =
     \<lparr>emotion_track.dominant_mood = ''calm'',
      emotion_track.emotional_arc = [Arc 0 5 ''intense'', Arc 5 10 ''unknown'']\<rparr>"

definition sample_video :: VideoUploadResponse where
  "sample_video =
     \<lparr>language_detected = ''en'', VideoUploadResponse.confidence = Some (7 / 10), transcript_preview = ''hello'',
      audio_emotion = sample_track, script_emotion = sample_track\<rparr>"

definition sample_pdf :: PdfAnalysisResponse where
  "sample_pdf =
     \<lparr>emotion_label = ''joy'', dominant_mood = ''Joy'', confidence = 9 / 10,
      emotional_arc = [Point (Some (1 / 2)), Point None], emotion_summary = ''glad'',
      script_preview = None\<rparr>"

definition sample_script :: ScriptAnalysisResponse where
  "sample_script =
     \<lparr>emotion_label = ''joy'', dominant_mood = ''Joy'', confidence = 3 / 5,
      emotional_arc = [Point (Some (1 / 4))], emotion_summary = ''glad''\<rparr>"

definition good_backend :: backend where
  \<comment> \<open>every request succeeds\<close>
  "good_backend =
     \<lparr>post_chat = (\<lambda>body log. Inr \<lparr>response = ''hi''\<rparr>),
      post_rag_query = (\<lambda>body log. Inr \<lparr>answer = ''see page 2''\<rparr>),
      post_upload_pdf = (\<lambda>file log. Inr ()),
      post_script_analyze = (\<lambda>text log. Inr sample_script),
      post_video_upload = (\<lambda>file log. Inr sample_video),
      post_video_youtube = (\<lambda>url log. Inr sample_video),
      post_script_upload_pdf = (\<lambda>file log. Inr sample_pdf)\<rparr>"

definition no_upload_backend :: backend where
  \<comment> \<open>the document-ingestion endpoint fails, the others succeed\<close>
  "no_upload_backend =
     good_backend\<lparr>post_upload_pdf := (\<lambda>file log. Inl (AxiosError ''Network Error''))\<rparr>"

definition no_chat_backend :: backend where
  \<comment> \<open>the two chat endpoints fail, the others succeed\<close>
  "no_chat_backend =
     good_backend\<lparr>post_chat := (\<lambda>body log. Inl (AxiosError ''Network Error'')),
                  post_rag_query := (\<lambda>body log. Inl (AxiosError ''Network Error''))\<rparr>"

definition empty_store :: world where
  \<comment> \<open>no durable record, nothing dispatched, nothing sent\<close>
  "empty_store = \<lparr>metrics_item = None, events = 0, calls = []\<rparr>"

definition null_store :: world where
  \<comment> \<open>the durable record is the text \<open>null\<close>\<close>
  "null_store = \<lparr>metrics_item = Some (JsonText JNull), events = 0, calls = []\<rparr>"

definition sample_store :: world where
  \<comment> \<open>a durable record after three conversations, one video and two analyses\<close>
  "sample_store =
     \<lparr>metrics_item = Some (JsonText (JMetrics
         \<lparr>StoredMetrics.totalConversations = 3, StoredMetrics.videosProcessed = 1,
          analyzedCount = 2, analyzedConfidenceSum = 140\<rparr>)),
      events = 6, calls = []\<rparr>"

definition sample_chat :: sendMessage_input where
  "sample_chat =
     \<lparr>sm_message = ''what is on page 2?'', sm_mode = mode_pdf, sm_responseMode = strict,
      sm_provider = local, sm_apiKey = None, sm_pdfContext = Some (File ''doc.pdf'' ''%PDF'')\<rparr>"

definition sample_form :: chat_form where
  "sample_form =
     \<lparr>chatMode = mode_general, responseMode = solve, llmProvider = local,
      apiKey = ''sk-1'', pdfFile = None, input = ''hello''\<rparr>"

definition pdf_result :: AnalysisResult where
  \<comment> \<open>what the PDF analysis of the sample backend normalizes to\<close>
  "pdf_result =
     \<lparr>dominantMood = ''Joy'', intensity = ''High'', result_confidence = 90,
      emotionalArc = [Number 50, Number 0],
      emotions = [\<lparr>e_name = ''Joy'', e_value = 90, e_color = ''#3b82f6''\<rparr>,
                  \<lparr>e_name = ''Secondary'', e_value = 6, e_color = ''#8b5cf6''\<rparr>,
                  \<lparr>e_name = ''Residual'', e_value = 5, e_color = ''#22c55e''\<rparr>]\<rparr>"

definition video_result :: AnalysisResult where
  \<comment> \<open>what the video analysis of the sample backend normalizes to\<close>
  "video_result =
     \<lparr>dominantMood = ''calm'', intensity = ''Medium'', result_confidence = 70,
      emotionalArc = [Number 95, Number 50],
      emotions = [\<lparr>e_name = ''calm'', e_value = 70, e_color = ''#3b82f6''\<rparr>,
                  \<lparr>e_name = ''Secondary'', e_value = 18, e_color = ''#8b5cf6''\<rparr>,
                  \<lparr>e_name = ''Residual'', e_value = 12, e_color = ''#22c55e''\<rparr>]\<rparr>"

subsection \<open>The request bodies and the credential they carry\<close>

definition rag_request_of :: "sendMessage_input \<Rightarrow> BackendRagRequest" where
  "rag_request_of inp =
     \<lparr>BackendRagRequest.question = sm_message inp,
      BackendRagRequest.mode = sm_responseMode inp,
      BackendRagRequest.llm_type = normalizeProvider (sm_provider inp),
      BackendRagRequest.api_key = sm_apiKey inp\<rparr>"

definition call_api_key :: "call \<Rightarrow> string option" where
  "call_api_key c =
     (case c of Chat body \<Rightarrow> BackendChatRequest.api_key body
              | RagQuery body \<Rightarrow> BackendRagRequest.api_key body
              | _ \<Rightarrow> None)"

definition ChatRequest_invariant :: "ChatPayload \<Rightarrow> bool" where
  \<comment> \<open>the specification's invariant of a chat request: a credential is present only
      when the provider is external\<close>
  "ChatRequest_invariant p = (ChatPayload.api_key p \<noteq> None \<longrightarrow> provider p = external)"

text \<open>Two sample payloads that satisfy it.\<close>

definition external_payload :: ChatPayload where
  "external_payload =
     \<lparr>ChatPayload.question = ''hi'', ChatPayload.mode = mode_general, response_mode = solve,
      provider = external, ChatPayload.api_key = Some ''sk-1''\<rparr>"

definition local_payload :: ChatPayload where
  "local_payload =
     \<lparr>ChatPayload.question = ''hi'', ChatPayload.mode = mode_pdf, response_mode = strict,
      provider = local, ChatPayload.api_key = None\<rparr>"

subsection \<open>The emotion breakdown in the words of the specification\<close>

text \<open>
  The specification gives the three percentages as
  \<open>dominant = clamp(round(c), 20, 95)\<close>,
  \<open>secondary = max(5, round((100 - dominant) * 0.6))\<close> and
  \<open>residual = max(5, 100 - dominant - secondary)\<close>. They are written down here as
  they stand there, with \<^const>\<open>round\<close> of the library, to be compared with what
  \<^const>\<open>buildEmotionBreakdown\<close> computes.
\<close>

definition clamp :: "real \<Rightarrow> real \<Rightarrow> real \<Rightarrow> real" where
  "clamp x lo hi = (if x < lo then lo else if hi < x then hi else x)"

definition spec_dominant :: "real \<Rightarrow> real" where
  "spec_dominant c = clamp (of_int (round c)) 20 95"

definition spec_secondary :: "real \<Rightarrow> real" where
  "spec_secondary c = max 5 (of_int (round ((100 - spec_dominant c) * 0.6)))"

definition spec_residual :: "real \<Rightarrow> real" where
  "spec_residual c = max 5 (100 - spec_dominant c - spec_secondary c)"

text \<open>The same three numbers as integers, for the arithmetic.\<close>

definition dominant_int :: "real \<Rightarrow> int" where
  "dominant_int c = max 20 (min 95 \<lfloor>c + 1 / 2\<rfloor>)"

definition secondary_int :: "real \<Rightarrow> int" where
  "secondary_int c = max 5 ((6 * (100 - dominant_int c) + 5) div 10)"

definition residual_int :: "real \<Rightarrow> int" where
  "residual_int c = max 5 (100 - dominant_int c - secondary_int c)"

section \<open>Properties\<close>

subsection \<open>Unfolding the definitions\<close>

lemmas io_defs = bind_io_def return_def throw_def apiClient_post_def
lemmas store_defs = readMetrics_def writeMetrics_def localStorage_getItem_def JSON_parse_def
  JSON_stringify_def fields_of_def zero_metrics_def incrementConversation_def
  incrementVideos_def addAnalysisConfidence_def getDashboardMetrics_def
lemmas sample_defs = good_backend_def no_upload_backend_def no_chat_backend_def empty_store_def
  null_store_def sample_track_def sample_video_def sample_pdf_def sample_script_def
  sample_chat_def sample_form_def
lemmas request_defs = analyzeScript_def uploadVideo_def analyzeYouTubeVideo_def uploadPDF_def
  uploadChatPDF_def sendChat_def chatbotApi_sendMessage_def normalizeProvider_def
lemmas number_defs = Math_round_def Math_max_def Math_min_def

subsection \<open>Sequencing, requests and the metrics store\<close>

lemma bind_io_Inr:
  "bind_io m f w = (Inr y, w') \<longleftrightarrow> (\<exists>x w1. m w = (Inr x, w1) \<and> f x w1 = (Inr y, w'))"
  by (auto simp: bind_io_def split: prod.splits sum.splits)

lemma bind_io_Inl:
  "bind_io m f w = (Inl e, w') \<longleftrightarrow>
     m w = (Inl e, w') \<or> (\<exists>x w1. m w = (Inr x, w1) \<and> f x w1 = (Inl e, w'))"
  by (auto simp: bind_io_def split: prod.splits sum.splits)

lemma return_eq: "return x w = (r, w') \<longleftrightarrow> r = Inr x \<and> w' = w"
  by (auto simp: return_def)

lemma throw_eq: "throw e w = (r, w') \<longleftrightarrow> r = Inl e \<and> w' = w"
  by (auto simp: throw_def)

lemma apiClient_post_eq:
  "apiClient_post respond c w = (r, w') \<longleftrightarrow>
     respond (calls w) = r \<and> w' = w\<lparr>calls := calls w @ [c]\<rparr>"
  by (auto simp: apiClient_post_def)

lemma readMetrics_calls [simp]: "readMetrics (w\<lparr>calls := cs\<rparr>) = readMetrics w"
  by (simp add: readMetrics_def localStorage_getItem_def)

lemma readMetrics_writeMetrics [simp]: "readMetrics (writeMetrics m w) = JMetrics m"
  by (simp add: readMetrics_def writeMetrics_def localStorage_getItem_def
      JSON_stringify_def JSON_parse_def)

lemma calls_writeMetrics [simp]: "calls (writeMetrics m w) = calls w"
  by (simp add: writeMetrics_def)

lemma incrementConversation_Inr:
  "incrementConversation w = (Inr u, w') \<longleftrightarrow>
     (\<exists>m. readMetrics w = JMetrics m \<and>
          w' = writeMetrics (m\<lparr>StoredMetrics.totalConversations :=
                                 StoredMetrics.totalConversations m + 1\<rparr>) w)"
  by (auto simp: incrementConversation_def fields_of_def split: json.splits)

lemma incrementConversation_Inl:
  "incrementConversation w = (Inl e, w') \<longleftrightarrow> readMetrics w = JNull \<and> e = TypeError \<and> w' = w"
  by (auto simp: incrementConversation_def fields_of_def split: json.splits)

lemma incrementVideos_Inr:
  "incrementVideos w = (Inr u, w') \<longleftrightarrow>
     (\<exists>m. readMetrics w = JMetrics m \<and>
          w' = writeMetrics (m\<lparr>StoredMetrics.videosProcessed :=
                                 StoredMetrics.videosProcessed m + 1\<rparr>) w)"
  by (auto simp: incrementVideos_def fields_of_def split: json.splits)

lemma addAnalysisConfidence_Inr:
  "addAnalysisConfidence c w = (Inr u, w') \<longleftrightarrow>
     (\<exists>m. readMetrics w = JMetrics m \<and>
          w' = writeMetrics (m\<lparr>analyzedCount := analyzedCount m + 1,
                               analyzedConfidenceSum := analyzedConfidenceSum m + c\<rparr>) w)"
  by (auto simp: addAnalysisConfidence_def fields_of_def split: json.splits)

lemma metrics_item_writeMetrics:
  "metrics_item (writeMetrics m w) = Some (JsonText (JMetrics m))"
  by (simp add: writeMetrics_def JSON_stringify_def)

lemma sendChat_result:
  "sendChat be payload w = (r, w') \<Longrightarrow>
     calls w' = calls w @
       [if ChatPayload.mode payload = mode_pdf
        then RagQuery \<lparr>BackendRagRequest.question = ChatPayload.question payload,
                       BackendRagRequest.mode = response_mode payload,
                       BackendRagRequest.llm_type = normalizeProvider (provider payload),
                       BackendRagRequest.api_key = ChatPayload.api_key payload\<rparr>
        else Chat \<lparr>message = ChatPayload.question payload,
                   BackendChatRequest.llm_type = normalizeProvider (provider payload),
                   BackendChatRequest.api_key = ChatPayload.api_key payload\<rparr>]"
  by (cases r)
    (auto simp: sendChat_def Let_def bind_io_Inr bind_io_Inl return_eq apiClient_post_eq
      incrementConversation_Inr incrementConversation_Inl split: if_splits)

lemma sendChat_Inl:
  "sendChat be payload w = (Inl e, w') \<Longrightarrow>
     metrics_item w' = metrics_item w \<and> events w' = events w"
  by (auto simp: sendChat_def Let_def bind_io_Inl return_eq apiClient_post_eq
      incrementConversation_Inr incrementConversation_Inl split: if_splits)

lemma sendChat_Inr:
  "sendChat be payload w = (Inr resp, w') \<Longrightarrow>
     \<exists>m. readMetrics w = JMetrics m \<and>
         readMetrics w' = JMetrics (m\<lparr>StoredMetrics.totalConversations :=
                                         StoredMetrics.totalConversations m + 1\<rparr>)"
  by (auto simp: sendChat_def Let_def bind_io_Inr return_eq apiClient_post_eq
      incrementConversation_Inr split: if_splits)

lemma sendChat_rag_Inr:
  "sendChat be payload w = (Inr resp, w') \<Longrightarrow> ChatPayload.mode payload = mode_pdf \<Longrightarrow>
     \<exists>d. post_rag_query be
            \<lparr>BackendRagRequest.question = ChatPayload.question payload,
             BackendRagRequest.mode = response_mode payload,
             BackendRagRequest.llm_type = normalizeProvider (provider payload),
             BackendRagRequest.api_key = ChatPayload.api_key payload\<rparr> (calls w) = Inr d
         \<and> resp = \<lparr>response = answer d\<rparr>"
  by (auto simp: sendChat_def Let_def bind_io_Inr return_eq apiClient_post_eq
      incrementConversation_Inr split: if_splits)

lemma chatbotApi_sendMessage_calls:
  assumes "chatbotApi_sendMessage be inp w = (r, w')"
  shows "\<exists>new. calls w' = calls w @ new \<and>
               (\<forall>c\<in>set new. call_api_key c = None \<or> call_api_key c = sm_apiKey inp)"
proof -
  let ?payload = "\<lparr>ChatPayload.question = sm_message inp, ChatPayload.mode = sm_mode inp,
                    response_mode = sm_responseMode inp, provider = sm_provider inp,
                    ChatPayload.api_key = sm_apiKey inp\<rparr>"
  consider (failed) doc where "calls w' = calls w @ [UploadPdf doc]"
    | (sent) w1 pre where "sendChat be ?payload w1 = (r, w')" "calls w1 = calls w @ pre"
        "\<forall>c\<in>set pre. call_api_key c = None"
    using assms
    by (cases r)
      (auto simp: chatbotApi_sendMessage_def bind_io_Inl bind_io_Inr return_eq uploadChatPDF_def
        apiClient_post_eq call_api_key_def split: if_splits option.splits)
  then show ?thesis
  proof cases
    case failed
    then show ?thesis by (simp add: call_api_key_def)
  next
    case sent
    from sendChat_result [OF sent(1)] sent(2,3) show ?thesis
      by (auto simp: call_api_key_def)
  qed
qed

lemma analyze_video_success:
  assumes "emotionApi_analyze be file type_video w = (Inr r, w')"
  shows "\<exists>m. readMetrics w = JMetrics m \<and>
             readMetrics w' = JMetrics
               (m\<lparr>StoredMetrics.videosProcessed := StoredMetrics.videosProcessed m + 1,
                  analyzedCount := analyzedCount m + 1,
                  analyzedConfidenceSum := analyzedConfidenceSum m + result_confidence r\<rparr>)"
  using assms
  by (auto simp: emotionApi_analyze_def uploadVideo_def Let_def bind_io_Inr return_eq
      apiClient_post_eq incrementVideos_Inr addAnalysisConfidence_Inr)

lemma analyze_pdf_success:
  assumes "emotionApi_analyze be file type_pdf w = (Inr r, w')"
  shows "\<exists>m. readMetrics w = JMetrics m \<and>
             readMetrics w' = JMetrics
               (m\<lparr>analyzedCount := analyzedCount m + 1,
                  analyzedConfidenceSum := analyzedConfidenceSum m + result_confidence r\<rparr>)"
  using assms
  by (auto simp: emotionApi_analyze_def uploadPDF_def Let_def bind_io_Inr return_eq
      apiClient_post_eq addAnalysisConfidence_Inr)

lemma analyze_script_success:
  assumes "emotionApi_analyze be file type_script w = (Inr r, w')"
  shows "\<exists>m. readMetrics w = JMetrics m \<and>
             readMetrics w' = JMetrics
               (m\<lparr>analyzedCount := analyzedCount m + 1,
                  analyzedConfidenceSum := analyzedConfidenceSum m + result_confidence r\<rparr>)"
  using assms
  by (auto simp: emotionApi_analyze_def analyzeScript_def Let_def bind_io_Inr return_eq throw_eq
      apiClient_post_eq addAnalysisConfidence_Inr split: if_splits)

lemma analyzeYouTube_success:
  assumes "emotionApi_analyzeYouTube be url w = (Inr r, w')"
  shows "\<exists>m. readMetrics w = JMetrics m \<and>
             readMetrics w' = JMetrics
               (m\<lparr>StoredMetrics.videosProcessed := StoredMetrics.videosProcessed m + 1,
                  analyzedCount := analyzedCount m + 1,
                  analyzedConfidenceSum := analyzedConfidenceSum m + result_confidence r\<rparr>)"
  using assms
  by (auto simp: emotionApi_analyzeYouTube_def analyzeYouTubeVideo_def Let_def bind_io_Inr return_eq
      apiClient_post_eq incrementVideos_Inr addAnalysisConfidence_Inr)

subsection \<open>Arithmetic of the emotion breakdown\<close>

lemma Math_max_eq: "Math_max a b = max a b"
  by (simp add: Math_max_def max_def)

lemma Math_min_eq: "Math_min a b = min a b"
  by (simp add: Math_min_def min_def)

lemma Math_round_eq: "Math_round x = of_int (round x)"
  by (simp add: Math_round_def round_def)

lemma clamp_eq: "lo \<le> hi \<Longrightarrow> clamp x lo hi = max lo (min hi x)"
  by (simp add: clamp_def max_def min_def)

lemma spec_dominant_int: "spec_dominant c = of_int (dominant_int c)"
  by (simp add: spec_dominant_def clamp_eq dominant_int_def round_def)

lemma round_six_tenths: "round (of_int n * (6 / 10) :: real) = (6 * n + 5) div 10"
proof -
  have eq: "(of_int n :: real) * (6 / 10) + 1 / 2 = (of_int (6 * n + 5) :: real) / of_int 10"
    by (simp add: field_simps)
  have "round (of_int n * (6 / 10) :: real) = \<lfloor>(of_int n :: real) * (6 / 10) + 1 / 2\<rfloor>"
    by (rule round_def)
  also have "\<dots> = \<lfloor>(of_int (6 * n + 5) :: real) / of_int 10\<rfloor>"
    by (simp only: eq)
  also have "\<dots> = (6 * n + 5) div 10"
    by (rule floor_divide_of_int_eq)
  finally show ?thesis .
qed

lemma spec_secondary_int: "spec_secondary c = of_int (secondary_int c)"
proof -
  have "(100 - spec_dominant c) * 0.6 = of_int (100 - dominant_int c) * (6 / 10)"
    by (simp add: spec_dominant_int)
  then have "round ((100 - spec_dominant c) * 0.6) = (6 * (100 - dominant_int c) + 5) div 10"
    using round_six_tenths [of "100 - dominant_int c"] by simp
  then show ?thesis
    by (simp add: spec_secondary_def secondary_int_def)
qed

lemma spec_residual_int: "spec_residual c = of_int (residual_int c)"
  by (simp add: spec_residual_def residual_int_def spec_dominant_int spec_secondary_int)

lemma buildEmotionBreakdown_values:
  "buildEmotionBreakdown label c =
     [\<lparr>e_name = label, e_value = spec_dominant c, e_color = ''#3b82f6''\<rparr>,
      \<lparr>e_name = ''Secondary'', e_value = spec_secondary c, e_color = ''#8b5cf6''\<rparr>,
      \<lparr>e_name = ''Residual'', e_value = spec_residual c, e_color = ''#22c55e''\<rparr>]"
  by (simp add: buildEmotionBreakdown_def Let_def Math_max_eq Math_min_eq Math_round_eq
      spec_dominant_def spec_secondary_def spec_residual_def clamp_eq)

lemma dominant_int_bounds: "20 \<le> dominant_int c \<and> dominant_int c \<le> 95"
  by (simp add: dominant_int_def)

lemma secondary_int_lower: "5 \<le> secondary_int c"
  by (simp add: secondary_int_def)

lemma residual_int_lower: "5 \<le> residual_int c"
  by (simp add: residual_int_def)


lemma breakdown_int_sum:
  fixes d :: int
  assumes "20 \<le> d" "d \<le> 95"
    and s: "s = max 5 ((6 * (100 - d) + 5) div 10)"
    and t: "t = max 5 (100 - d - s)"
  shows "100 \<le> d + s + t \<and> d + s + t \<le> 105
       \<and> (5 \<le> 100 - d - s \<longrightarrow> d + s + t = 100)
       \<and> (100 < d + s + t \<longrightarrow> 89 \<le> d \<and> t = 5 \<and> 100 - d - s < 5)"
  using assms by (auto simp: max_def)

lemma breakdown_sum_real:
  fixes D S T :: int
  assumes "100 \<le> D + S + T \<and> D + S + T \<le> 105
       \<and> (5 \<le> 100 - D - S \<longrightarrow> D + S + T = 100)
       \<and> (100 < D + S + T \<longrightarrow> 89 \<le> D \<and> T = 5 \<and> 100 - D - S < 5)"
  shows "100 \<le> (of_int D :: real) + of_int S + of_int T \<and> (of_int D :: real) + of_int S + of_int T \<le> 105
       \<and> (5 \<le> 100 - (of_int D :: real) - of_int S \<longrightarrow> (of_int D :: real) + of_int S + of_int T = 100)
       \<and> (100 < (of_int D :: real) + of_int S + of_int T \<longrightarrow> 89 \<le> (of_int D :: real) \<and> (of_int T :: real) = 5 \<and> 100 - (of_int D :: real) - of_int S < 5)"
proof -
  have a: "(of_int D :: real) + of_int S + of_int T = of_int (D + S + T)" by simp
  have b: "100 - (of_int D :: real) - of_int S = of_int (100 - D - S)" by simp
  have c: "(100 :: real) = of_int 100" "(105 :: real) = of_int 105" "(5 :: real) = of_int 5"
    "(89 :: real) = of_int 89" by simp_all
  show ?thesis
    unfolding a b
    unfolding c of_int_le_iff of_int_less_iff of_int_eq_iff
    using assms .
qed

lemma breakdown_values_int:
  "map e_value (buildEmotionBreakdown label c) =
     [of_int (dominant_int c), of_int (secondary_int c), of_int (residual_int c)]"
  by (simp add: buildEmotionBreakdown_values spec_dominant_int spec_secondary_int
      spec_residual_int)

lemma breakdown_int_facts:
  "100 \<le> dominant_int c + secondary_int c + residual_int c
      \<and> dominant_int c + secondary_int c + residual_int c \<le> 105
      \<and> (5 \<le> 100 - dominant_int c - secondary_int c \<longrightarrow>
           dominant_int c + secondary_int c + residual_int c = 100)
      \<and> (100 < dominant_int c + secondary_int c + residual_int c \<longrightarrow>
           89 \<le> dominant_int c \<and> residual_int c = 5
           \<and> 100 - dominant_int c - secondary_int c < 5)"
proof (rule breakdown_int_sum)
  show "20 \<le> dominant_int c" "dominant_int c \<le> 95"
    using dominant_int_bounds [of c] by simp_all
  show "secondary_int c = max 5 ((6 * (100 - dominant_int c) + 5) div 10)"
    by (simp only: secondary_int_def)
  show "residual_int c = max 5 (100 - dominant_int c - secondary_int c)"
    by (simp only: residual_int_def)
qed

lemma breakdown_95: "map e_value (buildEmotionBreakdown ''Joy'' 95) = [95, 5, 5]"
  by (simp add: buildEmotionBreakdown_def number_defs)

lemma breakdown_70: "map e_value (buildEmotionBreakdown ''Joy'' 70) = [70, 18, 12]"
  by (simp add: buildEmotionBreakdown_def number_defs)

subsection \<open>The sample runs\<close>

lemma analyze_pdf_sample:
  "emotionApi_analyze good_backend (File ''a.pdf'' ''%PDF'') type_pdf sample_store =
     (Inr pdf_result,
      \<lparr>metrics_item = Some (JsonText (JMetrics
         \<lparr>StoredMetrics.totalConversations = 3, StoredMetrics.videosProcessed = 1,
          analyzedCount = 3, analyzedConfidenceSum = 230\<rparr>)),
       events = 7, calls = [ScriptUploadPdf (File ''a.pdf'' ''%PDF'')]\<rparr>)"
  by (simp add: emotionApi_analyze_def pdf_result_def sample_store_def request_defs io_defs
      store_defs sample_defs number_defs inferIntensity_def buildEmotionBreakdown_def)

lemma analyzeYouTube_sample:
  "emotionApi_analyzeYouTube good_backend ''https://youtu.be/x'' sample_store =
     (Inr video_result,
      \<lparr>metrics_item = Some (JsonText (JMetrics
         \<lparr>StoredMetrics.totalConversations = 3, StoredMetrics.videosProcessed = 2,
          analyzedCount = 3, analyzedConfidenceSum = 210\<rparr>)),
       events = 8, calls = [VideoYoutube ''https://youtu.be/x'']\<rparr>)"
  by (simp add: emotionApi_analyzeYouTube_def video_result_def sample_store_def request_defs
      io_defs store_defs sample_defs number_defs inferIntensity_def buildEmotionBreakdown_def
      mapAudioArcToIntensitySeries_def get_property_def moodToValue_def
      Object_prototype_keys_def)

lemma sendMessage_good:
  "chatbotApi_sendMessage good_backend sample_chat sample_store =
     (Inr \<lparr>response = ''see page 2''\<rparr>,
      \<lparr>metrics_item = Some (JsonText (JMetrics
         \<lparr>StoredMetrics.totalConversations = 4, StoredMetrics.videosProcessed = 1,
          analyzedCount = 2, analyzedConfidenceSum = 140\<rparr>)),
       events = 7,
       calls = [UploadPdf (File ''doc.pdf'' ''%PDF''), RagQuery (rag_request_of sample_chat)]\<rparr>)"
  by (simp add: rag_request_of_def sample_store_def request_defs io_defs store_defs sample_defs)

lemma sendMessage_no_upload:
  "chatbotApi_sendMessage no_upload_backend sample_chat sample_store =
     (Inl (AxiosError ''Network Error''),
      sample_store\<lparr>calls := [UploadPdf (File ''doc.pdf'' ''%PDF'')]\<rparr>)"
  by (simp add: rag_request_of_def sample_store_def request_defs io_defs store_defs sample_defs)

lemma sendMessage_no_chat:
  "chatbotApi_sendMessage no_chat_backend sample_chat sample_store =
     (Inl (AxiosError ''Network Error''),
      sample_store\<lparr>calls := [UploadPdf (File ''doc.pdf'' ''%PDF''),
                               RagQuery (rag_request_of sample_chat)]\<rparr>)"
  by (simp add: rag_request_of_def sample_store_def request_defs io_defs store_defs sample_defs)

lemma sample_chat_contextual:
  "sm_mode sample_chat = mode_pdf \<and> sm_pdfContext sample_chat = Some (File ''doc.pdf'' ''%PDF'')"
  by (simp add: sample_chat_def)

subsection \<open>The credential in the requests of the chat path\<close>

lemma sendChat_external_sample:
  "calls (snd (sendChat good_backend external_payload empty_store))
     = [Chat \<lparr>message = ''hi'', BackendChatRequest.llm_type = llm_api,
              BackendChatRequest.api_key = Some ''sk-1''\<rparr>]"
  by (simp add: external_payload_def request_defs io_defs store_defs sample_defs)

lemma sendChat_local_sample:
  "calls (snd (sendChat good_backend local_payload empty_store))
     = [RagQuery \<lparr>BackendRagRequest.question = ''hi'', BackendRagRequest.mode = strict,
                  BackendRagRequest.llm_type = llm_local, BackendRagRequest.api_key = None\<rparr>]"
  by (simp add: local_payload_def request_defs io_defs store_defs sample_defs)

lemma handleSendMessage_local_sample:
  "calls (snd (handleSendMessage good_backend sample_form empty_store))
     = [Chat \<lparr>message = ''hello'', BackendChatRequest.llm_type = llm_local,
              BackendChatRequest.api_key = None\<rparr>]"
  by (simp add: handleSendMessage_def js_trim_def is_white_space_def request_defs io_defs
      store_defs sample_defs)

lemma handleSendMessage_external_sample:
  "calls (snd (handleSendMessage good_backend (sample_form\<lparr>llmProvider := external\<rparr>)
        empty_store))
     = [Chat \<lparr>message = ''hello'', BackendChatRequest.llm_type = llm_api,
              BackendChatRequest.api_key = Some ''sk-1''\<rparr>]"
  by (simp add: handleSendMessage_def js_trim_def is_white_space_def request_defs io_defs
      store_defs sample_defs)

lemma handleSendMessage_calls:
  assumes run: "handleSendMessage be form w = (reply, w'')"
  shows "\<exists>new. calls w'' = calls w @ new \<and>
         (\<forall>c\<in>set new.
            (llmProvider form = local \<longrightarrow> call_api_key c = None) \<and>
            (call_api_key c \<noteq> None \<longrightarrow>
               llmProvider form = external \<and> call_api_key c = Some (apiKey form)))"
proof (cases "js_trim (input form) = []")
  case True
  with run have "w'' = w" by (simp add: handleSendMessage_def)
  then show ?thesis by simp
next
  case False
  let ?inp = "\<lparr>sm_message = input form, sm_mode = chatMode form,
                sm_responseMode = responseMode form, sm_provider = llmProvider form,
                sm_apiKey = (if llmProvider form = external then Some (apiKey form) else None),
                sm_pdfContext = pdfFile form\<rparr>"
  from run False obtain r1 where "chatbotApi_sendMessage be ?inp w = (r1, w'')"
    by (auto simp: handleSendMessage_def split: prod.splits sum.splits)
  from chatbotApi_sendMessage_calls [OF this]
  obtain new where new: "calls w'' = calls w @ new"
    "\<forall>c\<in>set new. call_api_key c = None \<or>
        call_api_key c = (if llmProvider form = external then Some (apiKey form) else None)"
    by auto
  have "\<forall>c\<in>set new.
          (llmProvider form = local \<longrightarrow> call_api_key c = None) \<and>
          (call_api_key c \<noteq> None \<longrightarrow>
             llmProvider form = external \<and> call_api_key c = Some (apiKey form))"
    using new(2) by (cases "llmProvider form") auto
  with new(1) show ?thesis by blast
qed

subsection \<open>The mood table and the metrics fallback\<close>

lemma mapAudioArc_example:
  "mapAudioArcToIntensitySeries [Arc 0 5 ''intense'', Arc 5 10 ''unknown'']
     = [Number 95, Number 50]"
  by (simp add: mapAudioArcToIntensitySeries_def get_property_def moodToValue_def
      Object_prototype_keys_def)

lemma mapAudioArc_own_or_default:
  assumes "\<forall>entry\<in>set arc. mood entry \<notin> set Object_prototype_keys"
  shows "mapAudioArcToIntensitySeries arc =
           map (\<lambda>entry. Number (case map_of moodToValue (mood entry) of
                                   None \<Rightarrow> 50 | Some v \<Rightarrow> v)) arc"
  using assms
  by (auto simp: mapAudioArcToIntensitySeries_def get_property_def split: option.splits)

lemma getDashboardMetrics_fallback:
  assumes "metrics_item w \<in> {None, Some EmptyString, Some NonJson}"
  shows "getDashboardMetrics w =
           Inr \<lparr>DashboardMetrics.totalConversations = 0, DashboardMetrics.videosProcessed = 0,
                aiAccuracyScore = 0\<rparr>"
  using assms by (auto simp: store_defs)

section \<open>The claims\<close>

subsection \<open>C1\<close>

text \<open>
  Claim C1. For every label and every confidence percent \<open>c\<close> (a finite number),
  \<open>buildEmotionBreakdown\<close> returns exactly three entries, named by the label, \<open>Secondary\<close> and \<open>Residual\<close>, with
  the fixed colours, whose percentages are the specification's
  \<open>clamp(round(c), 20, 95)\<close>, \<open>max(5, round((100 - dominant) * 0.6))\<close> and
  \<open>max(5, 100 - dominant - secondary)\<close>; the dominant percentage lies between 20 and
  95 and the two others are at least 5, however large or small \<open>c\<close> is.
\<close>

theorem buildEmotionBreakdown_three_entries:
  "buildEmotionBreakdown label c =
     [\<lparr>e_name = label, e_value = spec_dominant c, e_color = ''#3b82f6''\<rparr>,
      \<lparr>e_name = ''Secondary'', e_value = spec_secondary c, e_color = ''#8b5cf6''\<rparr>,
      \<lparr>e_name = ''Residual'', e_value = spec_residual c, e_color = ''#22c55e''\<rparr>]
   \<and> 20 \<le> spec_dominant c \<and> spec_dominant c \<le> 95
   \<and> 5 \<le> spec_secondary c \<and> 5 \<le> spec_residual c"
proof -
  have "20 \<le> spec_dominant c" "spec_dominant c \<le> 95"
    using dominant_int_bounds [of c] by (simp_all add: spec_dominant_int)
  moreover have "5 \<le> spec_secondary c"
    by (simp add: spec_secondary_def)
  moreover have "5 \<le> spec_residual c"
    by (simp add: spec_residual_def)
  ultimately show ?thesis
    using buildEmotionBreakdown_values [of label c] by simp
qed

theorem buildEmotionBreakdown_three_entries_witness:
  "map e_value (buildEmotionBreakdown ''Joy'' 150) = [95, 5, 5]
   \<and> map e_value (buildEmotionBreakdown ''Joy'' (- 10)) = [20, 48, 32]
   \<and> map e_name (buildEmotionBreakdown ''Joy'' 90) = [''Joy'', ''Secondary'', ''Residual'']
   \<and> spec_dominant 90 = 90 \<and> spec_secondary 90 = 6 \<and> spec_residual 90 = 5"
  using buildEmotionBreakdown_three_entries [of "''Joy''" 150]
    buildEmotionBreakdown_three_entries [of "''Joy''" "- 10"]
    buildEmotionBreakdown_three_entries [of "''Joy''" 90]
  by (simp add: buildEmotionBreakdown_def number_defs)

subsection \<open>C2\<close>

text \<open>
  Claim C2. \<open>inferIntensity\<close> answers \<open>High\<close> exactly when \<open>c \<ge> 80\<close>, \<open>Medium\<close> exactly
  when \<open>60 \<le> c < 80\<close> and \<open>Low\<close> exactly when \<open>c < 60\<close>; the three bands are disjoint
  and cover every \<open>c\<close>, so each \<open>c\<close> has exactly one of the three labels, the lower
  bound of a band belonging to it.
\<close>

theorem inferIntensity_bands:
  "(inferIntensity c = ''High'' \<longleftrightarrow> 80 \<le> c)
   \<and> (inferIntensity c = ''Medium'' \<longleftrightarrow> 60 \<le> c \<and> c < 80)
   \<and> (inferIntensity c = ''Low'' \<longleftrightarrow> c < 60)
   \<and> inferIntensity c \<in> {''High'', ''Medium'', ''Low''}"
  by (simp add: inferIntensity_def)

theorem inferIntensity_bands_witness:
  "inferIntensity 80 = ''High'' \<and> inferIntensity 100 = ''High'' \<and> inferIntensity 81 = ''High''
   \<and> inferIntensity 79 = ''Medium'' \<and> inferIntensity 60 = ''Medium''
   \<and> inferIntensity 59 = ''Low'' \<and> inferIntensity 0 = ''Low''"
  using inferIntensity_bands [of 80] inferIntensity_bands [of 100] inferIntensity_bands [of 81]
    inferIntensity_bands [of 79] inferIntensity_bands [of 60] inferIntensity_bands [of 59]
    inferIntensity_bands [of 0]
  by simp

subsection \<open>C3\<close>

text \<open>
  Claim C3 says that every mood token outside the six known ones maps to 50. The lookup
  \<open>moodToValue[entry.mood] ?? 50\<close> goes through the prototype of the object literal:
  for the mood \<open>constructor\<close> it finds the inherited property, which is not
  \<open>undefined\<close>, and the entry of the series is that value, not 50. The function does
  not throw, and the specification's example maps to \<open>[95, 50]\<close>
  (\<open>mapAudioArc_example\<close>); outside the names of \<open>Object.prototype\<close> the mapping is
  the table with the default 50 (\<open>mapAudioArc_own_or_default\<close>).
\<close>

theorem mapAudioArc_inherited_key:
  "mapAudioArcToIntensitySeries [Arc 0 5 ''constructor''] = [Inherited ''constructor'']
   \<and> mapAudioArcToIntensitySeries [Arc 0 5 ''constructor''] \<noteq> [Number 50]"
  by (simp add: mapAudioArcToIntensitySeries_def get_property_def moodToValue_def
      Object_prototype_keys_def)

subsection \<open>C4\<close>

text \<open>
  Claim C4. When the text of the script file is empty after trimming, \<open>analyze\<close> with
  the kind \<open>script\<close> throws the validation error and leaves the world as it was: no
  request has been issued (the log of calls is unchanged) and the durable metrics
  record is untouched.
\<close>

theorem analyze_empty_script_fails:
  assumes "js_trim (file_text file) = []"
  shows "emotionApi_analyze be file type_script w = (Inl (Error ''Script file is empty.''), w)"
  using assms by (simp add: emotionApi_analyze_def throw_def)

theorem analyze_empty_script_fails_witness:
  "js_trim [CHR 0x20, CHR 0x0A, CHR 0x09] = []
   \<and> emotionApi_analyze good_backend (File ''a.txt'' [CHR 0x20, CHR 0x0A, CHR 0x09]) type_script
        empty_store
     = (Inl (Error ''Script file is empty.''), empty_store)
   \<and> calls empty_store = []"
proof -
  have blank: "js_trim (file_text (File ''a.txt'' [CHR 0x20, CHR 0x0A, CHR 0x09])) = []"
    by (simp add: js_trim_def is_white_space_def)
  from analyze_empty_script_fails [OF blank, of good_backend empty_store] blank
  show ?thesis by (simp add: empty_store_def)
qed

subsection \<open>C5\<close>

text \<open>
  Claim C5. On a durable record with the four numeric fields and a sample count that is
  not negative, \<open>getDashboardMetrics\<close> returns the two totals and
  \<open>aiAccuracyScore = analyzedConfidenceSum / analyzedCount\<close> when the count is
  positive, 0 otherwise. From the empty store, one conversation event gives
  \<open>totalConversations = 1\<close>, and the two samples 80 and 60 give \<open>aiAccuracyScore = 70\<close>.
\<close>

theorem dashboard_accuracy_score:
  "(readMetrics w = JMetrics m \<and> 0 \<le> analyzedCount m \<longrightarrow>
      getDashboardMetrics w =
        Inr \<lparr>DashboardMetrics.totalConversations = StoredMetrics.totalConversations m,
             DashboardMetrics.videosProcessed = StoredMetrics.videosProcessed m,
             aiAccuracyScore = (if 0 < analyzedCount m
                                then analyzedConfidenceSum m / analyzedCount m else 0)\<rparr>)
   \<and> getDashboardMetrics (snd (incrementConversation empty_store)) =
        Inr \<lparr>DashboardMetrics.totalConversations = 1, DashboardMetrics.videosProcessed = 0,
             aiAccuracyScore = 0\<rparr>
   \<and> getDashboardMetrics
        (snd (addAnalysisConfidence 60 (snd (addAnalysisConfidence 80 empty_store)))) =
        Inr \<lparr>DashboardMetrics.totalConversations = 0, DashboardMetrics.videosProcessed = 0,
             aiAccuracyScore = 70\<rparr>"
proof (intro conjI impI)
  assume "readMetrics w = JMetrics m \<and> 0 \<le> analyzedCount m"
  then show "getDashboardMetrics w =
        Inr \<lparr>DashboardMetrics.totalConversations = StoredMetrics.totalConversations m,
             DashboardMetrics.videosProcessed = StoredMetrics.videosProcessed m,
             aiAccuracyScore = (if 0 < analyzedCount m
                                then analyzedConfidenceSum m / analyzedCount m else 0)\<rparr>"
    by (auto simp: getDashboardMetrics_def fields_of_def)
next
  show "getDashboardMetrics (snd (incrementConversation empty_store)) =
        Inr \<lparr>DashboardMetrics.totalConversations = 1, DashboardMetrics.videosProcessed = 0,
             aiAccuracyScore = 0\<rparr>"
    by (simp add: store_defs empty_store_def)
next
  show "getDashboardMetrics
        (snd (addAnalysisConfidence 60 (snd (addAnalysisConfidence 80 empty_store)))) =
        Inr \<lparr>DashboardMetrics.totalConversations = 0, DashboardMetrics.videosProcessed = 0,
             aiAccuracyScore = 70\<rparr>"
    by (simp add: store_defs empty_store_def)
qed

theorem dashboard_accuracy_score_witness:
  "readMetrics sample_store =
     JMetrics \<lparr>StoredMetrics.totalConversations = 3, StoredMetrics.videosProcessed = 1,
               analyzedCount = 2, analyzedConfidenceSum = 140\<rparr>
   \<and> getDashboardMetrics sample_store =
        Inr \<lparr>DashboardMetrics.totalConversations = 3, DashboardMetrics.videosProcessed = 1,
             aiAccuracyScore = 70\<rparr>"
proof -
  have stored: "readMetrics sample_store =
     JMetrics \<lparr>StoredMetrics.totalConversations = 3, StoredMetrics.videosProcessed = 1,
               analyzedCount = 2, analyzedConfidenceSum = 140\<rparr>"
    by (simp add: store_defs sample_store_def)
  from dashboard_accuracy_score [of sample_store
      "\<lparr>StoredMetrics.totalConversations = 3, StoredMetrics.videosProcessed = 1,
        analyzedCount = 2, analyzedConfidenceSum = 140\<rparr>"] stored
  show ?thesis by simp
qed

subsection \<open>C6\<close>

text \<open>
  Claim C6. When \<open>analyze\<close> or \<open>analyzeYouTube\<close> returns a result, the durable record
  read before the call has the four fields, and the record read after it differs from
  it in this only: \<open>videosProcessed\<close> is one more for the kind \<open>video\<close> and for a
  YouTube link and unchanged for \<open>pdf\<close> and \<open>script\<close>, \<open>analyzedCount\<close> is one more,
  and \<open>analyzedConfidenceSum\<close> has grown by the confidence percentage of the result.
  \<open>totalConversations\<close> is unchanged.
\<close>

theorem analysis_success_metrics:
  "(emotionApi_analyze be file type w = (Inr r, w') \<longrightarrow>
      (\<exists>m. readMetrics w = JMetrics m \<and>
           readMetrics w' = JMetrics
             (m\<lparr>StoredMetrics.videosProcessed :=
                   StoredMetrics.videosProcessed m + (if type = type_video then 1 else 0),
                analyzedCount := analyzedCount m + 1,
                analyzedConfidenceSum := analyzedConfidenceSum m + result_confidence r\<rparr>)))
   \<and> (emotionApi_analyzeYouTube be url w = (Inr r, w') \<longrightarrow>
      (\<exists>m. readMetrics w = JMetrics m \<and>
           readMetrics w' = JMetrics
             (m\<lparr>StoredMetrics.videosProcessed := StoredMetrics.videosProcessed m + 1,
                analyzedCount := analyzedCount m + 1,
                analyzedConfidenceSum := analyzedConfidenceSum m + result_confidence r\<rparr>)))"
proof (intro conjI impI)
  assume run: "emotionApi_analyze be file type w = (Inr r, w')"
  show "\<exists>m. readMetrics w = JMetrics m \<and>
           readMetrics w' = JMetrics
             (m\<lparr>StoredMetrics.videosProcessed :=
                   StoredMetrics.videosProcessed m + (if type = type_video then 1 else 0),
                analyzedCount := analyzedCount m + 1,
                analyzedConfidenceSum := analyzedConfidenceSum m + result_confidence r\<rparr>)"
  proof (cases type)
    case type_video
    with run have "emotionApi_analyze be file type_video w = (Inr r, w')" by simp
    from analyze_video_success [OF this] type_video show ?thesis by simp
  next
    case type_script
    with run have "emotionApi_analyze be file type_script w = (Inr r, w')" by simp
    from analyze_script_success [OF this] type_script show ?thesis by simp
  next
    case type_pdf
    with run have "emotionApi_analyze be file type_pdf w = (Inr r, w')" by simp
    from analyze_pdf_success [OF this] type_pdf show ?thesis by simp
  qed
next
  assume "emotionApi_analyzeYouTube be url w = (Inr r, w')"
  then show "\<exists>m. readMetrics w = JMetrics m \<and>
           readMetrics w' = JMetrics
             (m\<lparr>StoredMetrics.videosProcessed := StoredMetrics.videosProcessed m + 1,
                analyzedCount := analyzedCount m + 1,
                analyzedConfidenceSum := analyzedConfidenceSum m + result_confidence r\<rparr>)"
    by (rule analyzeYouTube_success)
qed

theorem analysis_success_metrics_witness:
  "fst (emotionApi_analyze good_backend (File ''a.pdf'' ''%PDF'') type_pdf sample_store)
     = Inr pdf_result
   \<and> readMetrics (snd (emotionApi_analyze good_backend (File ''a.pdf'' ''%PDF'') type_pdf
        sample_store))
     = JMetrics \<lparr>StoredMetrics.totalConversations = 3, StoredMetrics.videosProcessed = 1,
                 analyzedCount = 3, analyzedConfidenceSum = 230\<rparr>
   \<and> fst (emotionApi_analyzeYouTube good_backend ''https://youtu.be/x'' sample_store)
     = Inr video_result
   \<and> readMetrics (snd (emotionApi_analyzeYouTube good_backend ''https://youtu.be/x''
        sample_store))
     = JMetrics \<lparr>StoredMetrics.totalConversations = 3, StoredMetrics.videosProcessed = 2,
                 analyzedCount = 3, analyzedConfidenceSum = 210\<rparr>"
  using analysis_success_metrics [of good_backend "File ''a.pdf'' ''%PDF''" type_pdf sample_store
      pdf_result "snd (emotionApi_analyze good_backend (File ''a.pdf'' ''%PDF'') type_pdf
        sample_store)" "''https://youtu.be/x''"]
    analysis_success_metrics [of good_backend "File ''a.pdf'' ''%PDF''" type_pdf sample_store
      video_result "snd (emotionApi_analyzeYouTube good_backend ''https://youtu.be/x''
        sample_store)" "''https://youtu.be/x''"]
  by (simp add: analyze_pdf_sample analyzeYouTube_sample store_defs)

subsection \<open>C7\<close>

text \<open>
  Claim C7. A chat request carries a credential only when its provider is external
  (the invariant of the specification's data model). For every such request,
  \<open>sendChat\<close> issues one request, the contextual query in the mode \<open>pdf\<close> and the plain
  chat otherwise, whose \<open>api_key\<close> is the request's own: the body carries a credential
  only when the provider is external, and none when the provider is local. The send
  handler of the chat form, through which the requests come, establishes the
  invariant itself: it passes \<open>apiKey\<close> only when the provider is external, so of the
  requests that \<open>handleSendMessage\<close> issues none carries a credential when the provider
  is local, and one that carries a credential carries the form's key with the
  external provider.
\<close>

theorem credential_only_for_external:
  "(ChatRequest_invariant payload \<and> sendChat be payload w = (r, w') \<longrightarrow>
      (\<exists>c. calls w' = calls w @ [c] \<and>
           c = (if ChatPayload.mode payload = mode_pdf
                then RagQuery \<lparr>BackendRagRequest.question = ChatPayload.question payload,
                               BackendRagRequest.mode = response_mode payload,
                               BackendRagRequest.llm_type = normalizeProvider (provider payload),
                               BackendRagRequest.api_key = ChatPayload.api_key payload\<rparr>
                else Chat \<lparr>message = ChatPayload.question payload,
                           BackendChatRequest.llm_type = normalizeProvider (provider payload),
                           BackendChatRequest.api_key = ChatPayload.api_key payload\<rparr>) \<and>
           (call_api_key c \<noteq> None \<longrightarrow> provider payload = external) \<and>
           (provider payload = local \<longrightarrow> call_api_key c = None)))
   \<and> (handleSendMessage be form w = (reply, w'') \<longrightarrow>
      (\<exists>new. calls w'' = calls w @ new \<and>
         (\<forall>c\<in>set new.
            (llmProvider form = local \<longrightarrow> call_api_key c = None) \<and>
            (call_api_key c \<noteq> None \<longrightarrow>
               llmProvider form = external \<and> call_api_key c = Some (apiKey form)))))"
proof (intro conjI impI)
  assume a: "ChatRequest_invariant payload \<and> sendChat be payload w = (r, w')"
  then have run: "sendChat be payload w = (r, w')" and inv: "ChatRequest_invariant payload"
    by simp_all
  let ?c = "if ChatPayload.mode payload = mode_pdf
            then RagQuery \<lparr>BackendRagRequest.question = ChatPayload.question payload,
                           BackendRagRequest.mode = response_mode payload,
                           BackendRagRequest.llm_type = normalizeProvider (provider payload),
                           BackendRagRequest.api_key = ChatPayload.api_key payload\<rparr>
            else Chat \<lparr>message = ChatPayload.question payload,
                       BackendChatRequest.llm_type = normalizeProvider (provider payload),
                       BackendChatRequest.api_key = ChatPayload.api_key payload\<rparr>"
  have log: "calls w' = calls w @ [?c]"
    using sendChat_result [OF run] .
  have key: "call_api_key ?c = ChatPayload.api_key payload"
    by (simp add: call_api_key_def)
  have "call_api_key ?c \<noteq> None \<longrightarrow> provider payload = external"
    using inv unfolding key by (simp add: ChatRequest_invariant_def)
  moreover have "provider payload = local \<longrightarrow> call_api_key ?c = None"
    using inv unfolding key by (auto simp: ChatRequest_invariant_def)
  ultimately show "\<exists>c. calls w' = calls w @ [c] \<and> c = ?c \<and>
           (call_api_key c \<noteq> None \<longrightarrow> provider payload = external) \<and>
           (provider payload = local \<longrightarrow> call_api_key c = None)"
    using log by blast
next
  assume "handleSendMessage be form w = (reply, w'')"
  then show "\<exists>new. calls w'' = calls w @ new \<and>
         (\<forall>c\<in>set new.
            (llmProvider form = local \<longrightarrow> call_api_key c = None) \<and>
            (call_api_key c \<noteq> None \<longrightarrow>
               llmProvider form = external \<and> call_api_key c = Some (apiKey form)))"
    by (rule handleSendMessage_calls)
qed

theorem credential_only_for_external_witness:
  "ChatRequest_invariant external_payload \<and> ChatRequest_invariant local_payload
   \<and> calls (snd (sendChat good_backend external_payload empty_store))
     = [Chat \<lparr>message = ''hi'', BackendChatRequest.llm_type = llm_api,
              BackendChatRequest.api_key = Some ''sk-1''\<rparr>]
   \<and> provider external_payload = external
   \<and> calls (snd (sendChat good_backend local_payload empty_store))
     = [RagQuery \<lparr>BackendRagRequest.question = ''hi'', BackendRagRequest.mode = strict,
                  BackendRagRequest.llm_type = llm_local, BackendRagRequest.api_key = None\<rparr>]
   \<and> calls (snd (handleSendMessage good_backend sample_form empty_store))
     = [Chat \<lparr>message = ''hello'', BackendChatRequest.llm_type = llm_local,
              BackendChatRequest.api_key = None\<rparr>]
   \<and> calls (snd (handleSendMessage good_backend (sample_form\<lparr>llmProvider := external\<rparr>)
        empty_store))
     = [Chat \<lparr>message = ''hello'', BackendChatRequest.llm_type = llm_api,
              BackendChatRequest.api_key = Some ''sk-1''\<rparr>]"
proof -
  have inv_ext: "ChatRequest_invariant external_payload"
    by (simp add: ChatRequest_invariant_def external_payload_def)
  have inv_loc: "ChatRequest_invariant local_payload"
    by (simp add: ChatRequest_invariant_def local_payload_def)
  have run_ext: "sendChat good_backend external_payload empty_store
      = (fst (sendChat good_backend external_payload empty_store),
         snd (sendChat good_backend external_payload empty_store))"
    by simp
  have run_form: "handleSendMessage good_backend sample_form empty_store
      = (fst (handleSendMessage good_backend sample_form empty_store),
         snd (handleSendMessage good_backend sample_form empty_store))"
    by simp
  note inst = credential_only_for_external [of external_payload good_backend empty_store
      "fst (sendChat good_backend external_payload empty_store)"
      "snd (sendChat good_backend external_payload empty_store)"
      sample_form
      "fst (handleSendMessage good_backend sample_form empty_store)"
      "snd (handleSendMessage good_backend sample_form empty_store)"]
  from inst inv_ext run_ext
  obtain c where c: "calls (snd (sendChat good_backend external_payload empty_store))
        = calls empty_store @ [c]"
    "call_api_key c \<noteq> None \<longrightarrow> provider external_payload = external"
    by blast
  have log: "calls empty_store = []"
    by (simp add: empty_store_def)
  from c(1) have "c = Chat \<lparr>message = ''hi'', BackendChatRequest.llm_type = llm_api,
              BackendChatRequest.api_key = Some ''sk-1''\<rparr>"
    unfolding sendChat_external_sample log by simp
  with c(2) have ext: "provider external_payload = external"
    by (simp add: call_api_key_def)
  from inv_ext inv_loc ext show ?thesis
    by (simp add: sendChat_external_sample sendChat_local_sample
        handleSendMessage_local_sample handleSendMessage_external_sample)
qed

subsection \<open>C8\<close>

text \<open>
  Claim C8. For a contextual request with a document attached, the upload to the
  document-ingestion endpoint is the first request issued; when it fails, its error is
  the outcome and no chat request follows; when it succeeds, the contextual chat
  request is issued next, after it. A call that returns a response has had both the
  upload and the chat request succeed. For every request, a call that fails leaves the
  durable record and the event count as they were, and a call that returns a response
  leaves a record that differs from the one before in \<open>totalConversations\<close> only,
  which is one more.
\<close>

theorem contextual_chat_upload_first:
  assumes run: "chatbotApi_sendMessage be inp w = (r, w')"
  shows "(sm_mode inp = mode_pdf \<and> sm_pdfContext inp = Some file \<longrightarrow>
            (\<forall>e. post_upload_pdf be file (calls w) = Inl e \<longrightarrow>
                 r = Inl e \<and> calls w' = calls w @ [UploadPdf file]) \<and>
            (post_upload_pdf be file (calls w) = Inr () \<longrightarrow>
                 calls w' = calls w @ [UploadPdf file, RagQuery (rag_request_of inp)]) \<and>
            (\<forall>resp. r = Inr resp \<longrightarrow>
                 post_upload_pdf be file (calls w) = Inr () \<and>
                 (\<exists>d. post_rag_query be (rag_request_of inp) (calls w @ [UploadPdf file]) = Inr d
                      \<and> resp = \<lparr>response = answer d\<rparr>)))
       \<and> (\<forall>e. r = Inl e \<longrightarrow> metrics_item w' = metrics_item w \<and> events w' = events w)
       \<and> (\<forall>resp. r = Inr resp \<longrightarrow>
             (\<exists>m. readMetrics w = JMetrics m \<and>
                  readMetrics w' = JMetrics (m\<lparr>StoredMetrics.totalConversations :=
                                                  StoredMetrics.totalConversations m + 1\<rparr>)))"
proof (intro conjI impI allI)
  fix e assume "r = Inl e"
  with run show "metrics_item w' = metrics_item w"
    by (auto simp: chatbotApi_sendMessage_def bind_io_Inl return_eq uploadChatPDF_def
        apiClient_post_eq split: if_splits option.splits dest: sendChat_Inl)
  from run \<open>r = Inl e\<close> show "events w' = events w"
    by (auto simp: chatbotApi_sendMessage_def bind_io_Inl return_eq uploadChatPDF_def
        apiClient_post_eq split: if_splits option.splits dest: sendChat_Inl)
next
  fix resp assume "r = Inr resp"
  with run show "\<exists>m. readMetrics w = JMetrics m \<and>
                  readMetrics w' = JMetrics (m\<lparr>StoredMetrics.totalConversations :=
                                                  StoredMetrics.totalConversations m + 1\<rparr>)"
    by (auto simp: chatbotApi_sendMessage_def bind_io_Inr return_eq uploadChatPDF_def
        apiClient_post_eq split: if_splits option.splits dest: sendChat_Inr)
next
  fix e
  assume ctx: "sm_mode inp = mode_pdf \<and> sm_pdfContext inp = Some file"
    and up: "post_upload_pdf be file (calls w) = Inl e"
  from run ctx up show "r = Inl e" "calls w' = calls w @ [UploadPdf file]"
    by (auto simp: chatbotApi_sendMessage_def bind_io_def uploadChatPDF_def apiClient_post_def)
next
  assume ctx: "sm_mode inp = mode_pdf \<and> sm_pdfContext inp = Some file"
    and up: "post_upload_pdf be file (calls w) = Inr ()"
  from run ctx up
  have "sendChat be \<lparr>ChatPayload.question = sm_message inp, ChatPayload.mode = sm_mode inp,
                     response_mode = sm_responseMode inp, provider = sm_provider inp,
                     ChatPayload.api_key = sm_apiKey inp\<rparr>
          (w\<lparr>calls := calls w @ [UploadPdf file]\<rparr>) = (r, w')"
    by (simp add: chatbotApi_sendMessage_def bind_io_def uploadChatPDF_def apiClient_post_def)
  from sendChat_result [OF this] ctx
  show "calls w' = calls w @ [UploadPdf file, RagQuery (rag_request_of inp)]"
    by (simp add: rag_request_of_def)
next
  fix resp
  assume ctx: "sm_mode inp = mode_pdf \<and> sm_pdfContext inp = Some file" and ok: "r = Inr resp"
  from run ctx ok show up: "post_upload_pdf be file (calls w) = Inr ()"
    by (auto simp: chatbotApi_sendMessage_def bind_io_Inr uploadChatPDF_def apiClient_post_eq)
  from run ctx up ok
  have "sendChat be \<lparr>ChatPayload.question = sm_message inp, ChatPayload.mode = sm_mode inp,
                     response_mode = sm_responseMode inp, provider = sm_provider inp,
                     ChatPayload.api_key = sm_apiKey inp\<rparr>
          (w\<lparr>calls := calls w @ [UploadPdf file]\<rparr>) = (Inr resp, w')"
    by (simp add: chatbotApi_sendMessage_def bind_io_def uploadChatPDF_def apiClient_post_def)
  from sendChat_rag_Inr [OF this] ctx
  show "\<exists>d. post_rag_query be (rag_request_of inp) (calls w @ [UploadPdf file]) = Inr d
           \<and> resp = \<lparr>response = answer d\<rparr>"
    by (simp add: rag_request_of_def)
qed

theorem contextual_chat_upload_first_witness:
  "sm_mode sample_chat = mode_pdf \<and> sm_pdfContext sample_chat = Some (File ''doc.pdf'' ''%PDF'')
   \<and> fst (chatbotApi_sendMessage good_backend sample_chat sample_store)
       = Inr \<lparr>response = ''see page 2''\<rparr>
   \<and> calls (snd (chatbotApi_sendMessage good_backend sample_chat sample_store))
       = [UploadPdf (File ''doc.pdf'' ''%PDF''), RagQuery (rag_request_of sample_chat)]
   \<and> readMetrics (snd (chatbotApi_sendMessage good_backend sample_chat sample_store))
       = JMetrics \<lparr>StoredMetrics.totalConversations = 4, StoredMetrics.videosProcessed = 1,
                   analyzedCount = 2, analyzedConfidenceSum = 140\<rparr>
   \<and> fst (chatbotApi_sendMessage no_upload_backend sample_chat sample_store)
       = Inl (AxiosError ''Network Error'')
   \<and> calls (snd (chatbotApi_sendMessage no_upload_backend sample_chat sample_store))
       = [UploadPdf (File ''doc.pdf'' ''%PDF'')]
   \<and> metrics_item (snd (chatbotApi_sendMessage no_upload_backend sample_chat sample_store))
       = metrics_item sample_store
   \<and> metrics_item (snd (chatbotApi_sendMessage no_chat_backend sample_chat sample_store))
       = metrics_item sample_store"
proof -
  note good = contextual_chat_upload_first [OF sendMessage_good, of "File ''doc.pdf'' ''%PDF''"]
  note no_upload =
    contextual_chat_upload_first [OF sendMessage_no_upload, of "File ''doc.pdf'' ''%PDF''"]
  note no_chat =
    contextual_chat_upload_first [OF sendMessage_no_chat, of "File ''doc.pdf'' ''%PDF''"]
  have stored: "readMetrics sample_store =
      JMetrics \<lparr>StoredMetrics.totalConversations = 3, StoredMetrics.videosProcessed = 1,
                analyzedCount = 2, analyzedConfidenceSum = 140\<rparr>"
    by (simp add: sample_store_def readMetrics_def localStorage_getItem_def JSON_parse_def)
  have log: "calls sample_store = []"
    by (simp add: sample_store_def)
  have "post_upload_pdf good_backend (File ''doc.pdf'' ''%PDF'') (calls sample_store) = Inr ()"
    by (simp add: good_backend_def)
  with good sample_chat_contextual log
  have 1: "calls (snd (chatbotApi_sendMessage good_backend sample_chat sample_store))
       = [UploadPdf (File ''doc.pdf'' ''%PDF''), RagQuery (rag_request_of sample_chat)]"
    by (simp add: sendMessage_good)
  from good obtain m where "readMetrics sample_store = JMetrics m"
    and "readMetrics (snd (chatbotApi_sendMessage good_backend sample_chat sample_store))
      = JMetrics (m\<lparr>StoredMetrics.totalConversations := StoredMetrics.totalConversations m + 1\<rparr>)"
    unfolding sendMessage_good snd_conv by blast
  with stored
  have 2: "readMetrics (snd (chatbotApi_sendMessage good_backend sample_chat sample_store))
       = JMetrics \<lparr>StoredMetrics.totalConversations = 4, StoredMetrics.videosProcessed = 1,
                   analyzedCount = 2, analyzedConfidenceSum = 140\<rparr>"
    by simp
  have "post_upload_pdf no_upload_backend (File ''doc.pdf'' ''%PDF'') (calls sample_store)
          = Inl (AxiosError ''Network Error'')"
    by (simp add: no_upload_backend_def good_backend_def)
  with no_upload sample_chat_contextual log
  have 3: "calls (snd (chatbotApi_sendMessage no_upload_backend sample_chat sample_store))
       = [UploadPdf (File ''doc.pdf'' ''%PDF'')]"
    by (simp add: sendMessage_no_upload)
  from no_upload
  have 4: "metrics_item (snd (chatbotApi_sendMessage no_upload_backend sample_chat sample_store))
       = metrics_item sample_store"
    unfolding sendMessage_no_upload snd_conv by blast
  from no_chat
  have 5: "metrics_item (snd (chatbotApi_sendMessage no_chat_backend sample_chat sample_store))
       = metrics_item sample_store"
    unfolding sendMessage_no_chat snd_conv by blast
  from sample_chat_contextual 1 2 3 4 5 show ?thesis
    by (simp add: sendMessage_good sendMessage_no_upload)
qed

subsection \<open>C9\<close>

text \<open>
  Claim C9 says that \<open>getDashboardMetrics\<close> never throws and falls back to the all-zero
  record on a corrupt durable record. A record that is missing, empty or not JSON does
  fall back (\<open>getDashboardMetrics_fallback\<close>), through the \<open>catch\<close> of \<open>readMetrics\<close>.
  The text \<open>null\<close> is JSON: \<open>JSON.parse\<close> returns \<open>null\<close>, nothing is caught, and the
  property access \<open>metrics.analyzedCount\<close> throws.
\<close>

theorem getDashboardMetrics_null_record_throws:
  "getDashboardMetrics null_store = Inl TypeError"
  by (simp add: store_defs null_store_def)

subsection \<open>C10\<close>

text \<open>
  Claim C10. The three percentages of \<open>buildEmotionBreakdown\<close> sum to at least 100 and
  at most 105. The sum is exactly 100 whenever \<open>100 - dominant - secondary\<close> is at
  least 5. A sum above 100 occurs only with the residual at its floor 5 (what is
  left after the first two being less than 5) and the dominant percentage at 89 or
  more, next to its upper clamp 95.
\<close>

theorem buildEmotionBreakdown_sum:
  assumes "map e_value (buildEmotionBreakdown label c) = [d, s, t]"
  shows "100 \<le> d + s + t \<and> d + s + t \<le> 105
       \<and> (5 \<le> 100 - d - s \<longrightarrow> d + s + t = 100)
       \<and> (100 < d + s + t \<longrightarrow> 89 \<le> d \<and> t = 5 \<and> 100 - d - s < 5)"
proof -
  from assms have d: "d = of_int (dominant_int c)" and s: "s = of_int (secondary_int c)"
    and t: "t = of_int (residual_int c)"
    by (simp_all add: breakdown_values_int)
  show ?thesis
    unfolding d s t using breakdown_int_facts [of c] by (rule breakdown_sum_real)
qed

theorem buildEmotionBreakdown_sum_witness:
  "map e_value (buildEmotionBreakdown ''Joy'' 95) = [95, 5, 5]
   \<and> (100 :: real) \<le> 95 + 5 + 5 \<and> (95 + 5 + 5 :: real) \<le> 105
   \<and> map e_value (buildEmotionBreakdown ''Joy'' 70) = [70, 18, 12]
   \<and> (5 :: real) \<le> 100 - 70 - 18 \<and> (70 + 18 + 12 :: real) = 100"
  using buildEmotionBreakdown_sum [OF breakdown_95] buildEmotionBreakdown_sum [OF breakdown_70]
    breakdown_95 breakdown_70
  by simp

end
